theory Spec2Isabelle
  imports Main "HOL-Library.AList" "HOL-Library.Sublist"
begin

section \<open>Python strings\<close>

text \<open>
  A Python \<open>str\<close> is modelled as a \<open>string\<close>: one \<open>char\<close> per code point, for the
  code points below 256. \<open>is_space\<close> is the whitespace test that \<open>str.split()\<close> and
  \<open>str.strip()\<close> use without arguments, restricted to that range: tab, line feed,
  vertical tab, form feed, carriage return, the separators 28 to 31, space, NEL (133)
  and the no-break space (160).
\<close>

definition is_space :: "char \<Rightarrow> bool" where
  "is_space c = (of_char c \<in> set [9, 10, 11, 12, 13, 28, 29, 30, 31, 32, 133, 160 :: nat])"

text \<open>\<open>s.split()\<close>: the maximal runs of non-whitespace characters, in order.
  \<open>cur\<close> is the run read so far.\<close>

fun split_from :: "string \<Rightarrow> string \<Rightarrow> string list" where
  "split_from cur [] = (if cur = [] then [] else [cur])"
| "split_from cur (c # cs) =
     (if is_space c then (if cur = [] then split_from [] cs else cur # split_from [] cs)
      else split_from (cur @ [c]) cs)"

definition py_split :: "string \<Rightarrow> string list" where
  "py_split s = split_from [] s"

text \<open>\<open>sep.join(xs)\<close>.\<close>

fun py_join :: "string \<Rightarrow> string list \<Rightarrow> string" where
  "py_join sep [] = []"
| "py_join sep [x] = x"
| "py_join sep (x # y # ys) = x @ sep @ py_join sep (y # ys)"

text \<open>\<open>s.strip()\<close>: whitespace removed at both ends.\<close>

definition py_strip :: "string \<Rightarrow> string" where
  "py_strip s = rev (dropWhile is_space (rev (dropWhile is_space s)))"

text \<open>\<open>s.startswith(p)\<close>.\<close>

fun startswith :: "string \<Rightarrow> string \<Rightarrow> bool" where
  "startswith s [] = True"
| "startswith [] (p # ps) = False"
| "startswith (c # cs) (p # ps) = (c = p \<and> startswith cs ps)"

text \<open>\<open>sub in s\<close>: \<open>sub\<close> occurs in \<open>s\<close> as a contiguous block.\<close>

fun py_in :: "string \<Rightarrow> string \<Rightarrow> bool" where
  "py_in sub [] = (sub = [])"
| "py_in sub (c # cs) = (startswith (c # cs) sub \<or> py_in sub cs)"

text \<open>\<open>s.find(sub)\<close>: the lowest index at which \<open>sub\<close> occurs in \<open>s\<close>, or \<open>-1\<close>.
  \<open>find_from sub s k\<close> searches the rest \<open>s\<close> of the string, which starts at index \<open>k\<close>.\<close>

fun find_from :: "string \<Rightarrow> string \<Rightarrow> nat \<Rightarrow> int" where
  "find_from sub [] k = (if sub = [] then int k else - 1)"
| "find_from sub (c # cs) k =
     (if startswith (c # cs) sub then int k else find_from sub cs (Suc k))"

definition py_find :: "string \<Rightarrow> string \<Rightarrow> int" where
  "py_find s sub = find_from sub s 0"

text \<open>\<open>s[i:j]\<close>: a negative bound counts from the end, both bounds are clamped to
  \<open>0 .. len(s)\<close>, and the slice is empty when the lower bound is not below the upper.\<close>

definition clamp_index :: "nat \<Rightarrow> int \<Rightarrow> nat" where
  "clamp_index n i = (if i < 0 then nat (max (i + int n) 0) else min (nat i) n)"

definition py_slice :: "string \<Rightarrow> int \<Rightarrow> int \<Rightarrow> string" where
  "py_slice s i j =
     (let lo = clamp_index (length s) i; hi = clamp_index (length s) j
      in take (hi - lo) (drop lo s))"

section \<open>The degree-name extractor\<close>

definition opening_text_en :: string where "opening_text_en = ''degreeof''"
definition closing_text_en :: string where "closing_text_en = ''by''"
definition opening_text_de :: string where "opening_text_de = ''desStudiums''"
definition closing_text_de :: string where "closing_text_de = ''eingereichtvon''"

text \<open>\<open>''.join(raw_text.split())\<close>: the text without any whitespace.\<close>

definition strip_all_ws :: "string \<Rightarrow> string" where
  "strip_all_ws raw_text = py_join [] (py_split raw_text)"

text \<open>\<open>get_degree\<close>; \<open>None\<close> is Python's \<open>None\<close>.\<close>

definition get_degree :: "string \<Rightarrow> string option" where
  "get_degree raw_text =
     (let text = strip_all_ws raw_text in
      if py_in opening_text_en text then
        (let start = py_find text opening_text_en + int (length opening_text_en);
             end = py_find text closing_text_en
         in Some (py_slice text start end))
      else if py_in opening_text_de text then
        (let start = py_find text opening_text_de + int (length opening_text_de);
             end = py_find text closing_text_de
         in Some (py_slice text start end))
      else None)"


section \<open>Errors\<close>

text \<open>The exceptions the modelled code can raise. \<open>AttributeError\<close> and \<open>TypeError\<close>
  come from an attribute access and a subscript on \<open>None\<close>, \<open>KeyError\<close> from a
  subscript with a missing attribute name. \<open>MissingSchema\<close> and \<open>InvalidAddress\<close> are
  raised by \<open>requests.get\<close> for an address it does not accept.\<close>

datatype py_error =
  ValueError string | AttributeError | TypeError | KeyError string
  | MissingSchema | InvalidAddress

section \<open>Parsed documents\<close>

text \<open>
  The tree that \<open>BeautifulSoup(content, 'html.parser')\<close> builds: a tag has a name, its
  attributes and its children, a \<open>NavigableString\<close> is a piece of text. The
  \<open>BeautifulSoup\<close> object itself is a tag (named \<open>[document]\<close>) whose children are the
  top-level nodes.
\<close>

datatype node = Tag string "(string \<times> string) list" "node list" | NavigableString string

fun is_tag :: "node \<Rightarrow> bool" where
  "is_tag (Tag n a cs) = True"
| "is_tag (NavigableString s) = False"

fun tag_name :: "node \<Rightarrow> string" where
  "tag_name (Tag n a cs) = n"
| "tag_name (NavigableString s) = []"

text \<open>\<open>tag.get(key)\<close>: the value of an attribute, \<open>None\<close> when the tag has none of
  that name.\<close>

fun get_attr :: "node \<Rightarrow> string \<Rightarrow> string option" where
  "get_attr (Tag n a cs) key = map_of a key"
| "get_attr (NavigableString s) key = None"

text \<open>\<open>tag[key]\<close> raises \<open>KeyError\<close> for a missing attribute.\<close>

definition getitem :: "node \<Rightarrow> string \<Rightarrow> py_error + string" where
  "getitem t key = (case get_attr t key of None \<Rightarrow> Inl (KeyError key) | Some v \<Rightarrow> Inr v)"

text \<open>\<open>tag.descendants\<close>: every node below the tag, in document order.\<close>

fun descendants :: "node \<Rightarrow> node list" where
  "descendants (Tag n a cs) = concat (map (\<lambda>c. c # descendants c) cs)"
| "descendants (NavigableString s) = []"

text \<open>\<open>tag.text\<close>, that is \<open>tag.get_text()\<close>: the strings below the tag, concatenated.\<close>

fun own_string :: "node \<Rightarrow> string" where
  "own_string (NavigableString s) = s"
| "own_string (Tag n a cs) = []"

definition get_text :: "node \<Rightarrow> string" where
  "get_text t = concat (map own_string (descendants t))"

text \<open>\<open>tag.string\<close>: the single string child of a tag, looked for through single tag
  children; \<open>None\<close> when a tag on the way has no child or several.\<close>

fun tag_string :: "node \<Rightarrow> string option" where
  "tag_string (NavigableString s) = Some s"
| "tag_string (Tag n a []) = None"
| "tag_string (Tag n a [c]) = tag_string c"
| "tag_string (Tag n a (c # d # cs)) = None"

text \<open>\<open>tag.find(...)\<close> is the first descendant tag that matches, \<open>tag.find_all(...)\<close> the
  list of all of them, in document order.\<close>

definition bs_find :: "(node \<Rightarrow> bool) \<Rightarrow> node \<Rightarrow> node option" where
  "bs_find p t = List.find (\<lambda>n. is_tag n \<and> p n) (descendants t)"

definition bs_find_all :: "(node \<Rightarrow> bool) \<Rightarrow> node \<Rightarrow> node list" where
  "bs_find_all p t = filter (\<lambda>n. is_tag n \<and> p n) (descendants t)"

text \<open>
  The filters of the source. The parser splits a \<open>class\<close> attribute at whitespace; a
  string given as \<open>class_\<close> matches a tag when it is one of the tag's classes, or when
  it is the tag's classes joined by single spaces. \<open>id\<close> is compared as a whole,
  \<open>string="Next"\<close> is compared with \<open>tag.string\<close>, and \<open>href=True\<close> asks for the attribute
  to be there.
\<close>

definition class_matches :: "string \<Rightarrow> node \<Rightarrow> bool" where
  "class_matches cls t =
     (case get_attr t ''class'' of
        None \<Rightarrow> False
      | Some v \<Rightarrow> cls \<in> set (py_split v) \<or> py_join '' '' (py_split v) = cls)"

definition by_name :: "string \<Rightarrow> node \<Rightarrow> bool" where
  "by_name nm t = (tag_name t = nm)"

definition by_class :: "string \<Rightarrow> string \<Rightarrow> node \<Rightarrow> bool" where
  "by_class nm cls t = (tag_name t = nm \<and> class_matches cls t)"

definition by_id :: "string \<Rightarrow> string \<Rightarrow> node \<Rightarrow> bool" where
  "by_id nm i t = (tag_name t = nm \<and> get_attr t ''id'' = Some i)"

definition by_string :: "string \<Rightarrow> string \<Rightarrow> node \<Rightarrow> bool" where
  "by_string nm s t = (tag_name t = nm \<and> tag_string t = Some s)"

definition with_href :: "string \<Rightarrow> node \<Rightarrow> bool" where
  "with_href nm t = (tag_name t = nm \<and> get_attr t ''href'' \<noteq> None)"

section \<open>Metadata records\<close>

text \<open>A Python \<open>dict\<close> from strings to strings keeps its keys in insertion order: an
  association list with distinct keys. \<open>d[k] = v\<close> is \<open>AList.update k v d\<close>, which
  replaces the value of a key in place and appends a new key at the end.\<close>

type_synonym pydict = "(string \<times> string) list"

section \<open>The field extractors\<close>

text \<open>The body of the loop of \<open>get_resource_attributes\<close>, for one row.\<close>

definition resource_row :: "node \<Rightarrow> pydict \<Rightarrow> pydict" where
  "resource_row row attributes =
     (let label = bs_find (by_class ''div'' ''col-md-3 col-sm-4 metadataFieldLabel'') row;
          value = bs_find (by_class ''div'' ''col-md-8 col-sm-8 metadataFieldValue'') row
      in case label of
           None \<Rightarrow> attributes
         | Some l \<Rightarrow>
            (case value of
               None \<Rightarrow> attributes
             | Some v \<Rightarrow>
                (let label = py_strip (get_text l); value = py_strip (get_text v)
                 in case map_of attributes label of
                      Some old \<Rightarrow> AList.update label (old @ '', '' @ value) attributes
                    | None \<Rightarrow> AList.update label value attributes)))"

fun resource_rows :: "node list \<Rightarrow> pydict \<Rightarrow> pydict" where
  "resource_rows [] attributes = attributes"
| "resource_rows (row # rows) attributes = resource_rows rows (resource_row row attributes)"

definition get_resource_attributes :: "node list \<Rightarrow> pydict" where
  "get_resource_attributes rows = resource_rows rows []"

definition INTERESTING_INFO :: "string list" where
  "INTERESTING_INFO =
     [''dc.contributor.advisor'', ''dc.contributor.author'', ''dc.date.accessioned'',
      ''dc.date.issued'', ''dc.date.submitted'', ''dc.identifier.uri'', ''dc.language.iso'',
      ''dc.subject'', ''cd.title'', ''dc.type'', ''cd.contributor.assistant'',
      ''tux.publication.orgunit'', ''cd.type.qualificationlevel'', ''dc.identifier.libraryid'',
      ''dc.description.numberOfPages'', ''dc.thesistype'', ''item.openairetype'',
      ''item.openaccessfulltext'', ''crisitem.author.dept'', ''crisitem.author.parentorg'']"

text \<open>The body of the row loop of \<open>get_thesis_info\<close>, for one row. Only the label is
  tested; \<open>.text\<close> on a missing value element is an attribute access on \<open>None\<close>.\<close>

definition thesis_row :: "node \<Rightarrow> pydict \<Rightarrow> py_error + pydict" where
  "thesis_row row info_dict =
     (case bs_find (by_class ''div'' ''col-md-3 col-sm-4 metadataFieldLabel'') row of
        None \<Rightarrow> Inr info_dict
      | Some l \<Rightarrow>
         (let info = py_strip (get_text l)
          in case bs_find (by_class ''div'' ''col-md-8 col-sm-8 metadataFieldValue'') row of
               None \<Rightarrow> Inl AttributeError
             | Some v \<Rightarrow>
                (let data = py_strip (get_text v)
                 in if info \<in> set INTERESTING_INFO then
                      (case map_of info_dict info of
                         Some old \<Rightarrow> Inr (AList.update info (old @ '', '' @ data) info_dict)
                       | None \<Rightarrow> Inr (AList.update info data info_dict))
                    else Inr info_dict)))"

fun thesis_rows :: "node list \<Rightarrow> pydict \<Rightarrow> py_error + pydict" where
  "thesis_rows [] info_dict = Inr info_dict"
| "thesis_rows (row # rows) info_dict =
     (case thesis_row row info_dict of
        Inl e \<Rightarrow> Inl e
      | Inr d \<Rightarrow> thesis_rows rows d)"

section \<open>Metrics and the link to the PDF\<close>

text \<open>\<open>get_metrics\<close>. With no panel the two names are bound to the sentinel, and the
  function goes on to \<open>panel.find\<close>, an attribute access on \<open>None\<close>.\<close>

definition get_metrics :: "node \<Rightarrow> py_error + (string \<times> string)" where
  "get_metrics soup =
     (let panel = bs_find (by_class ''div'' ''panel-list-right'') soup;
          bound = (if panel = None then Some (''Panel not found'', ''Panel not found'') else None)
      in case panel of
           None \<Rightarrow> Inl AttributeError
         | Some p \<Rightarrow>
            (let views = (case bs_find (by_id ''span'' ''metric-counter-view'') p of
                            Some view_counter \<Rightarrow> py_strip (get_text view_counter)
                          | None \<Rightarrow> ''Views not found'');
                 downloads = (case bs_find (by_id ''span'' ''metric-counter-download'') p of
                                Some download_counter \<Rightarrow> py_strip (get_text download_counter)
                              | None \<Rightarrow> ''Downloads not found'')
             in Inr (views, downloads)))"

text \<open>\<open>get_pdf_link\<close>. \<open>link_div.find('a')['href']\<close> is a subscript on \<open>None\<close> when the
  container has no link, and a missing key when the link has no address.\<close>

definition get_pdf_link :: "node \<Rightarrow> py_error + string" where
  "get_pdf_link wrapper_display =
     (case bs_find (by_class ''div'' ''item-bitstream-grid-bitstream-type'') wrapper_display of
        None \<Rightarrow> Inr ''No bitstream grid found''
      | Some link_div \<Rightarrow>
         (case bs_find (by_name ''a'') link_div of
            None \<Rightarrow> Inl TypeError
          | Some a \<Rightarrow> getitem a ''href''))"


section \<open>Numbers as text\<close>

text \<open>\<open>str(n)\<close> for an integer: its decimal digits, after a minus sign when negative.\<close>

definition digit_char :: "nat \<Rightarrow> char" where
  "digit_char d = char_of (48 + d)"

fun str_nat :: "nat \<Rightarrow> string" where
  "str_nat n = (if n < 10 then [digit_char n] else str_nat (n div 10) @ [digit_char (n mod 10)])"

definition str_int :: "int \<Rightarrow> string" where
  "str_int i = (if i < 0 then CHR ''-'' # str_nat (nat (- i)) else str_nat (nat i))"

section \<open>The outside world\<close>

text \<open>
  A response is its status code and the tree the parser builds from its body. The
  network is a parameter \<open>fetch\<close>: from its current state and an address it gives the
  response and its next state. The state of a run is the state of the network and the
  log of what the program did: the delays, the requests and the console output, in
  order.
\<close>

record response =
  status_code :: int
  content :: node

datatype event = Sleep nat | Get string | Print string

type_synonym 'w fetch = "'w \<Rightarrow> string \<Rightarrow> response \<times> 'w"
type_synonym 'w state = "'w \<times> event list"

text \<open>
  \<open>requests.get\<close> looks at the address before it sends anything. Leading whitespace
  aside and case ignored, an address is sent only when it starts with \<open>http://\<close> or
  \<open>https://\<close>, the two prefixes a session has a connection adapter for. An address
  with no colon in it has no scheme and raises \<open>MissingSchema\<close>: such is a path that
  starts with a slash. Every other address that is not sent raises \<open>InvalidSchema\<close>,
  \<open>InvalidURL\<close> or \<open>MissingSchema\<close>, by the rest of the address; the model has the one
  value \<open>InvalidAddress\<close> for these. In each case nothing is requested. What
  \<open>requests.get\<close> does with an address it sends is the parameter \<open>fetch\<close>; a failure of
  the transport is not modelled.
\<close>

definition lower_char :: "char \<Rightarrow> char" where
  "lower_char c =
     (let n = (of_char c :: nat) in if 65 \<le> n \<and> n \<le> 90 then char_of (n + 32) else c)"

definition py_lstrip :: "string \<Rightarrow> string" where
  "py_lstrip s = dropWhile is_space s"

definition address_error :: "string \<Rightarrow> py_error option" where
  "address_error url =
     (let u = py_lstrip url; l = map lower_char u
      in if startswith l ''http://'' \<or> startswith l ''https://'' then None
         else if CHR '':'' \<in> set u then Some InvalidAddress
         else Some MissingSchema)"

definition requests_get ::
  "'w fetch \<Rightarrow> string \<Rightarrow> 'w state \<Rightarrow> (py_error + response) \<times> 'w state" where
  "requests_get fetch url st =
     (case address_error url of
        Some e \<Rightarrow> (Inl e, st)
      | None \<Rightarrow>
         (case st of (w, log) \<Rightarrow>
            (case fetch w url of (r, w') \<Rightarrow> (Inr r, (w', log @ [Get url])))))"

definition time_sleep :: "nat \<Rightarrow> 'w state \<Rightarrow> 'w state" where
  "time_sleep secs st = (case st of (w, log) \<Rightarrow> (w, log @ [Sleep secs]))"

definition py_print :: "string \<Rightarrow> 'w state \<Rightarrow> 'w state" where
  "py_print s st = (case st of (w, log) \<Rightarrow> (w, log @ [Print s]))"

definition DOMAIN :: string where
  "DOMAIN = ''https://repositum.tuwien.at''"

definition CRAWL_DELAY :: nat where
  "CRAWL_DELAY = 5"

section \<open>The link collector\<close>

definition next_results_page :: "node \<Rightarrow> py_error + string option" where
  "next_results_page soup =
     (case bs_find (by_class ''ul'' ''pagination pull-right'') soup of
        None \<Rightarrow> Inr None
      | Some pagination_list \<Rightarrow>
         (case bs_find (by_string ''a'' ''Next'') pagination_list of
            Some next_link \<Rightarrow>
              (case getitem next_link ''href'' of Inl e \<Rightarrow> Inl e | Inr href \<Rightarrow> Inr (Some href))
          | None \<Rightarrow> Inr None))"

definition get_theses_links :: "node \<Rightarrow> string list" where
  "get_theses_links soup =
     (case bs_find (by_class ''table'' ''table table-hover'') soup of
        None \<Rightarrow> []
      | Some theses_table \<Rightarrow>
          filter (\<lambda>href. startswith href ''/handle/'')
            (map (\<lambda>a. case get_attr a ''href'' of Some href \<Rightarrow> href | None \<Rightarrow> [])
               (bs_find_all (with_href ''a'') theses_table)))"

text \<open>The progress line \<open>f'\\r{len(all_links)} thesis links found'\<close>.\<close>

definition progress_line :: "nat \<Rightarrow> string" where
  "progress_line n = CHR 0x0D # str_nat n @ '' thesis links found''"

text \<open>
  The \<open>while True\<close> loop of \<open>get_all_theses_links\<close>, from the parsing of the current page
  on. Nothing bounds the number of pages, so the loop is a partial function: \<open>None\<close>
  is a run that never ends. \<open>if next_page\<close> is false for \<open>None\<close> and for the empty
  string. The address of the next page is the \<open>href\<close> as it stands in the page:
  \<open>DOMAIN\<close> is not put before it.
\<close>

partial_function (option) links_loop ::
  "'w fetch \<Rightarrow> string list \<Rightarrow> response \<Rightarrow> 'w state \<Rightarrow>
     ((py_error + string list) \<times> 'w state) option" where
  "links_loop fetch all_links current_page st =
     (let soup = content current_page;
          all_links' = all_links @ get_theses_links soup;
          st1 = py_print (progress_line (length all_links')) st
      in case next_results_page soup of
           Inl e \<Rightarrow> Some (Inl e, st1)
         | Inr None \<Rightarrow> Some (Inr all_links', st1)
         | Inr (Some next_page) \<Rightarrow>
            (if next_page = [] then Some (Inr all_links', st1)
             else (case requests_get fetch next_page (time_sleep CRAWL_DELAY st1) of
                     (Inl e, st2) \<Rightarrow> Some (Inl e, st2)
                   | (Inr page, st2) \<Rightarrow> links_loop fetch all_links' page st2)))"

definition get_all_theses_links ::
  "'w fetch \<Rightarrow> string \<Rightarrow> 'w state \<Rightarrow> ((py_error + string list) \<times> 'w state) option" where
  "get_all_theses_links fetch start_page st =
     (case requests_get fetch start_page st of
        (Inl e, st1) \<Rightarrow> Some (Inl e, st1)
      | (Inr current_page, st1) \<Rightarrow> links_loop fetch [] current_page st1)"

section \<open>The thesis path\<close>

text \<open>\<open>get_thesis_info\<close>. \<open>button.text\<close> is read for the console before \<open>button\<close> is
  tested, so a missing button is an attribute access on \<open>None\<close>; so is a missing
  \<open>wrapperDisplayItem\<close> in the full record.\<close>

definition get_thesis_info ::
  "'w fetch \<Rightarrow> string \<Rightarrow> 'w state \<Rightarrow> (py_error + pydict) \<times> 'w state" where
  "get_thesis_info fetch link st =
     (case requests_get fetch (DOMAIN @ link) st of
        (Inl e, st1) \<Rightarrow> (Inl e, st1)
      | (Inr thesis_page, st1) \<Rightarrow>
          (case bs_find (by_class ''a'' ''btn btn-primary'') (content thesis_page) of
             None \<Rightarrow> (Inl AttributeError, st1)
           | Some button \<Rightarrow>
              (let st2 = py_print (''button string: '' @ get_text button) st1
               in case getitem button ''href'' of
                    Inl e \<Rightarrow> (Inl e, st2)
                  | Inr href \<Rightarrow>
                     (case requests_get fetch (DOMAIN @ href) st2 of
                        (Inl e, st3) \<Rightarrow> (Inl e, st3)
                      | (Inr full_record, st3) \<Rightarrow>
                          (case bs_find (by_id ''div'' ''wrapperDisplayItem'') (content full_record) of
                             None \<Rightarrow> (Inl AttributeError, st3)
                           | Some table \<Rightarrow>
                               (thesis_rows
                                  (bs_find_all (by_class ''div'' ''row metadata-row'') table) [],
                                st3))))))"

section \<open>The page orchestrator\<close>

text \<open>The identifier argument: an \<open>int\<close>, a \<open>bool\<close> (in Python an instance of \<open>int\<close>
  with the value 0 or 1, printed as \<open>False\<close> or \<open>True\<close>), or an object of any other type.\<close>

datatype pyval = PyInt int | PyBool bool | PyOther

fun isinstance_int :: "pyval \<Rightarrow> bool" where
  "isinstance_int (PyInt i) = True"
| "isinstance_int (PyBool b) = True"
| "isinstance_int PyOther = False"

fun int_value :: "pyval \<Rightarrow> int" where
  "int_value (PyInt i) = i"
| "int_value (PyBool b) = (if b then 1 else 0)"
| "int_value PyOther = 0"

fun py_str :: "pyval \<Rightarrow> string" where
  "py_str (PyInt i) = str_int i"
| "py_str (PyBool b) = (if b then ''True'' else ''False'')"
| "py_str PyOther = []"

datatype page_result = Message string | Attributes pydict

text \<open>
  The test for the heading of an unknown identifier is
  \<open>tag.name == 'h1' and tag.get_text().strip == 'Invalid Identifier'\<close>: \<open>strip\<close> is not
  called, and a bound method is never equal to a string.
\<close>

definition method_eq_str :: "string \<Rightarrow> string \<Rightarrow> bool" where
  "method_eq_str receiver s = False"

definition invalid_identifier_heading :: "node \<Rightarrow> bool" where
  "invalid_identifier_heading t =
     (tag_name t = ''h1'' \<and> method_eq_str (get_text t) ''Invalid Identifier'')"

definition scrape_publication_page ::
  "'w fetch \<Rightarrow> pyval \<Rightarrow> string \<Rightarrow> string \<Rightarrow> 'w state \<Rightarrow> (py_error + page_result) \<times> 'w state" where
  "scrape_publication_page fetch id' path doi_prefix st =
     (if \<not> isinstance_int id' then (Inl (ValueError ''id must be an integer''), st)
      else if int_value id' < 0 then (Inl (ValueError ''id must be a positive integer''), st)
      else if int_value id' \<ge> 300000 then (Inl (ValueError ''id must be less than 300_000''), st)
      else
       (let link = DOMAIN @ path @ doi_prefix @ py_str id' @ ''?mode=full''
        in case requests_get fetch link (time_sleep CRAWL_DELAY st) of
          (Inl e, st1) \<Rightarrow> (Inl e, st1)
        | (Inr page, st1) \<Rightarrow>
           if status_code page \<noteq> 200 then
             (Inr (Message (''Negative response: '' @ str_int (status_code page))), st1)
           else
            (let soup = content page
             in if bs_find invalid_identifier_heading soup \<noteq> None then
                  (Inr (Message ''Invalid Identifier''), st1)
                else
                 (case bs_find (by_id ''div'' ''wrapperDisplayItem'') soup of
                    None \<Rightarrow> (Inr (Message ''No wrapperDisplayItem found''), st1)
                  | Some wrapper_display \<Rightarrow>
                     (case bs_find (by_class ''div'' ''row'') wrapper_display of
                        None \<Rightarrow> (Inr (Message ''No row class found''), st1)
                      | Some table \<Rightarrow>
                         (let rows = bs_find_all (by_class ''div'' ''row metadata-row'') table
                          in if rows = [] then (Inr (Message ''No metadata rows found''), st1)
                             else
                              (let attributes = get_resource_attributes rows
                               in case get_metrics soup of
                                    Inl e \<Rightarrow> (Inl e, st1)
                                  | Inr (views, downloads) \<Rightarrow>
                                     (let attributes = AList.update ''Views'' views attributes;
                                          attributes = AList.update ''Downloads'' downloads attributes
                                      in case get_pdf_link wrapper_display of
                                           Inl e \<Rightarrow> (Inl e, st1)
                                         | Inr pdf_link \<Rightarrow>
                                            (Inr (Attributes
                                               (AList.update ''PDF link'' pdf_link attributes)),
                                             st1)))))))))"


section \<open>Notions used to state the properties\<close>

text \<open>
  The whitespace insertion of the space-insertion property (not a function of the
  source): \<open>insert_at i ws s\<close> puts the characters \<open>ws\<close> before position \<open>i\<close> of \<open>s\<close>,
  \<open>insertSpaces\<close> does a list of such insertions one after the other.
\<close>

definition insert_at :: "nat \<Rightarrow> string \<Rightarrow> string \<Rightarrow> string" where
  "insert_at i ws s = take i s @ ws @ drop i s"

fun insertSpaces :: "(nat \<times> string) list \<Rightarrow> string \<Rightarrow> string" where
  "insertSpaces [] s = s"
| "insertSpaces ((i, ws) # ins) s = insertSpaces ins (insert_at i ws s)"

text \<open>
  \<open>first_at s sub i\<close>: the first occurrence of \<open>sub\<close> in \<open>s\<close> starts at index \<open>i\<close>.
  It is stated with the library's \<open>prefix\<close>, independently of \<open>py_find\<close>.
\<close>

definition first_at :: "string \<Rightarrow> string \<Rightarrow> nat \<Rightarrow> bool" where
  "first_at s sub i =
     (i \<le> length s \<and> prefix sub (drop i s) \<and>
      list_all (\<lambda>k. \<not> prefix sub (drop k s)) [0..<i])"

text \<open>The German example of the specification, without whitespace.\<close>

definition de_example :: string where
  "de_example = ''desStudiumsInformatikeingereichtvon''"

text \<open>\<open>has_tag p t\<close>: some tag below \<open>t\<close> passes the filter \<open>p\<close>.\<close>

definition has_tag :: "(node \<Rightarrow> bool) \<Rightarrow> node \<Rightarrow> bool" where
  "has_tag p t = list_ex (\<lambda>n. is_tag n \<and> p n) (descendants t)"

text \<open>What one row contributes: its trimmed label and value, when it has both
  elements.\<close>

definition row_pair :: "node \<Rightarrow> (string \<times> string) option" where
  "row_pair row =
     (case bs_find (by_class ''div'' ''col-md-3 col-sm-4 metadataFieldLabel'') row of
        None \<Rightarrow> None
      | Some l \<Rightarrow>
         (case bs_find (by_class ''div'' ''col-md-8 col-sm-8 metadataFieldValue'') row of
            None \<Rightarrow> None
          | Some v \<Rightarrow> Some (py_strip (get_text l), py_strip (get_text v))))"

text \<open>The trimmed values of the rows whose trimmed label is \<open>l\<close>, in document order.\<close>

definition values_for :: "string \<Rightarrow> node list \<Rightarrow> string list" where
  "values_for l rows = map snd (filter (\<lambda>kv. fst kv = l) (List.map_filter row_pair rows))"

text \<open>Example inputs.\<close>

definition raw_en :: string where
  "raw_en = ''for the degree of Master of Science by the Faculty''"

definition raw_de :: string where
  "raw_de = ''Diplomarbeit zur Erlangung des Stu diums  Informatik eingereicht von Erika''"

definition raw_open :: string where
  "raw_open = ''the degree of Doctor''"

definition raw_de_open :: string where
  "raw_de_open = ''zur Erlangung des Studiums Informatik''"

definition spaces_en :: "(nat \<times> string) list" where
  "spaces_en = [(11, '' ''), (20, [CHR 0x0A, CHR '' ''])]"

definition document :: "node list \<Rightarrow> node" where
  "document cs = Tag ''[document]'' [] cs"

definition label_div :: "string \<Rightarrow> node" where
  "label_div s = Tag ''div'' [(''class'', ''col-md-3 col-sm-4 metadataFieldLabel'')] [NavigableString s]"

definition value_div :: "string \<Rightarrow> node" where
  "value_div s = Tag ''div'' [(''class'', ''col-md-8 col-sm-8 metadataFieldValue'')] [NavigableString s]"

definition metadata_row :: "node list \<Rightarrow> node" where
  "metadata_row cs = Tag ''div'' [(''class'', ''row metadata-row'')] cs"

definition rows_subject :: "node list" where
  "rows_subject =
     [metadata_row [label_div '' dc.subject '', value_div ''Logic''],
      metadata_row [label_div ''dc.title'', value_div ''On Proofs''],
      metadata_row [label_div ''dc.subject''],
      metadata_row [label_div ''dc.subject'', value_div '' Automata '']]"

definition rows_no_value :: "node list" where
  "rows_no_value = [metadata_row [label_div ''dc.subject'']]"

definition page_no_panel :: node where
  "page_no_panel = document [Tag ''html'' [] [Tag ''body'' [] [Tag ''h1'' [] [NavigableString ''A thesis'']]]]"

definition page_invalid :: node where
  "page_invalid = document [Tag ''html'' [] [Tag ''body'' [] [Tag ''h1'' [] [NavigableString ''Invalid Identifier'']]]]"

definition fetch_page :: "node \<Rightarrow> unit fetch" where
  "fetch_page page w url = (\<lparr>status_code = 200, content = page\<rparr>, w)"

definition wrapper_no_grid :: node where
  "wrapper_no_grid = Tag ''div'' [(''id'', ''wrapperDisplayItem'')] []"

definition wrapper_no_link :: node where
  "wrapper_no_link = Tag ''div'' [(''id'', ''wrapperDisplayItem'')]
     [Tag ''div'' [(''class'', ''item-bitstream-grid-bitstream-type'')] [NavigableString ''PDF'']]"

definition results_table :: "string list \<Rightarrow> node" where
  "results_table hrefs = Tag ''table'' [(''class'', ''table table-hover'')]
     (map (\<lambda>h. Tag ''tr'' [] [Tag ''td'' [] [Tag ''a'' [(''href'', h)] [NavigableString ''item'']]]) hrefs)"

definition pagination :: "(string \<times> string) list \<Rightarrow> node" where
  "pagination links = Tag ''ul'' [(''class'', ''pagination pull-right'')]
     (map (\<lambda>(h, s). Tag ''li'' [] [Tag ''a'' [(''href'', h)] [NavigableString s]]) links)"

definition search_page1 :: node where
  "search_page1 = document
     [results_table [''/handle/20.500.12708/1'', ''/help'', ''/handle/20.500.12708/2''],
      pagination [(''/simple-search?start=50'', ''Next'')]]"

definition search_page2 :: node where
  "search_page2 = document
     [results_table [''/handle/20.500.12708/3''],
      pagination [(''/simple-search?start=0'', ''Previous'')]]"

text \<open>A network that answers its first request with page 1 and every later one with
  page 2; its state is the number of requests made.\<close>

definition fetch_two :: "nat fetch" where
  "fetch_two w url =
     (\<lparr>status_code = 200, content = (if w = 0 then search_page1 else search_page2)\<rparr>, Suc w)"

text \<open>The two responses of that network.\<close>

definition resp1 :: response where
  "resp1 = \<lparr>status_code = 200, content = search_page1\<rparr>"

definition resp2 :: response where
  "resp2 = \<lparr>status_code = 200, content = search_page2\<rparr>"

section \<open>Facts about the string operations\<close>

lemma py_join_empty: "py_join [] xs = concat xs"
  by (induction "[] :: string" xs rule: py_join.induct) simp_all

lemma concat_split_from: "concat (split_from cur s) = cur @ filter (\<lambda>c. \<not> is_space c) s"
  by (induction cur s rule: split_from.induct) simp_all

lemma strip_all_ws_filter: "strip_all_ws raw = filter (\<lambda>c. \<not> is_space c) raw"
  by (simp add: strip_all_ws_def py_split_def py_join_empty concat_split_from)

lemma startswith_prefix: "startswith s p = prefix p s"
  by (induction s p rule: startswith.induct) auto

lemma py_in_sublist: "py_in sub s = sublist sub s"
  by (induction s) (simp_all add: startswith_prefix sublist_Cons_right)

lemma first_at_iff:
  "first_at s sub i \<longleftrightarrow>
     i \<le> length s \<and> prefix sub (drop i s) \<and> (\<forall>k<i. \<not> prefix sub (drop k s))"
  by (auto simp: first_at_def list_all_iff)

lemma find_from_first:
  "i \<le> length s \<Longrightarrow> prefix sub (drop i s) \<Longrightarrow> \<forall>k<i. \<not> prefix sub (drop k s) \<Longrightarrow>
   find_from sub s n = int (n + i)"
proof (induction s arbitrary: i n)
  case Nil
  then show ?case by simp
next
  case (Cons c cs)
  show ?case
  proof (cases i)
    case 0
    with Cons.prems show ?thesis by (simp add: startswith_prefix)
  next
    case (Suc j)
    from Cons.prems Suc have n0: "\<not> prefix sub (c # cs)" by (metis drop0 zero_less_Suc)
    have "\<forall>k<j. \<not> prefix sub (drop k cs)"
    proof (intro allI impI)
      fix k assume "k < j"
      then have "Suc k < i" using Suc by simp
      with Cons.prems(3) have "\<not> prefix sub (drop (Suc k) (c # cs))" by blast
      then show "\<not> prefix sub (drop k cs)" by simp
    qed
    with Cons.IH[of j "Suc n"] Cons.prems Suc have "find_from sub cs (Suc n) = int (Suc n + j)"
      by simp
    with n0 Suc show ?thesis by (simp add: startswith_prefix)
  qed
qed

lemma py_find_first_at: "first_at s sub i \<Longrightarrow> py_find s sub = int i"
  unfolding first_at_iff py_find_def
  using find_from_first[of i s sub 0] by simp

lemma find_from_absent: "\<not> py_in sub s \<Longrightarrow> find_from sub s n = - 1"
  by (induction s arbitrary: n) auto

lemma py_find_absent: "\<not> py_in sub s \<Longrightarrow> py_find s sub = - 1"
  by (simp add: py_find_def find_from_absent)

lemma first_at_py_in: "first_at s sub i \<Longrightarrow> py_in sub s"
  unfolding first_at_def py_in_sublist
  by (metis append_take_drop_id prefix_def sublist_def sublist_appendI)

lemma py_in_first_at: "py_in sub s \<Longrightarrow> \<exists>i. first_at s sub i"
proof (induction s)
  case Nil
  then show ?case by (auto simp: first_at_iff)
next
  case (Cons c cs)
  show ?case
  proof (cases "prefix sub (c # cs)")
    case True
    then have "first_at (c # cs) sub 0" by (simp add: first_at_iff)
    then show ?thesis ..
  next
    case False
    with Cons.prems have "py_in sub cs" by (simp add: startswith_prefix)
    with Cons.IH obtain i where i: "first_at cs sub i" by blast
    have "first_at (c # cs) sub (Suc i)"
      unfolding first_at_iff
    proof (intro conjI allI impI)
      show "Suc i \<le> length (c # cs)" using i by (simp add: first_at_iff)
      show "prefix sub (drop (Suc i) (c # cs))" using i by (simp add: first_at_iff)
      fix k assume "k < Suc i"
      then show "\<not> prefix sub (drop k (c # cs))"
        using i False by (cases k) (simp_all add: first_at_iff)
    qed
    then show ?thesis ..
  qed
qed

lemma first_at_bound: "first_at s sub i \<Longrightarrow> i + length sub \<le> length s"
  unfolding first_at_def
  by (metis le_add_diff_inverse length_drop nat_add_left_cancel_le prefix_length_le)

lemma py_slice_nat: "py_slice s (int i) (int j) = take (j - i) (drop i s)"
  by (simp add: py_slice_def clamp_index_def Let_def min_def)

lemma py_slice_minus1:
  assumes le: "i \<le> length s"
  shows "py_slice s (int i) (- 1) = butlast (drop i s)"
proof -
  have "clamp_index (length s) (- 1) = length s - 1"
    by (simp add: clamp_index_def max_def nat_diff_distrib')
  moreover have "clamp_index (length s) (int i) = i"
    using le by (simp add: clamp_index_def)
  ultimately have "py_slice s (int i) (- 1) = take (length s - 1 - i) (drop i s)"
    by (simp add: py_slice_def)
  also have "\<dots> = butlast (drop i s)"
    by (simp add: butlast_conv_take)
  finally show ?thesis .
qed

text \<open>No occurrence of \<open>sub\<close> in \<open>pre\<close>, and none that starts in \<open>pre\<close> and ends in
  \<open>rest\<close>: the search goes on in \<open>rest\<close>.\<close>

lemma find_from_skip:
  assumes "\<not> py_in sub pre"
    and "\<forall>k. 0 < k \<and> k < length sub \<longrightarrow> \<not> prefix (drop k sub) rest"
  shows "find_from sub (pre @ rest) n = find_from sub rest (n + length pre)"
  using assms(1)
proof (induction pre arbitrary: n)
  case Nil
  then show ?case by simp
next
  case (Cons x xs)
  have "\<not> prefix sub (x # xs @ rest)"
  proof
    assume p: "prefix sub (x # xs @ rest)"
    show False
    proof (cases "length sub \<le> length (x # xs)")
      case True
      with p have "prefix sub (x # xs)"
        by (metis append_Cons prefix_length_prefix prefixI)
      with Cons.prems show False by (simp add: startswith_prefix)
    next
      case False
      from p have "prefix sub ((x # xs) @ rest)" by simp
      then consider "prefix sub (x # xs)" | us where "sub = (x # xs) @ us" "prefix us rest"
        unfolding prefix_append by blast
      then show False
      proof cases
        case 1
        with False show False using prefix_length_le by blast
      next
        case 2
        then have "drop (length (x # xs)) sub = us" by simp
        moreover have "0 < length (x # xs) \<and> length (x # xs) < length sub"
          using False by simp
        ultimately show False using assms(2) 2(2) by blast
      qed
    qed
  qed
  with Cons show ?case by (simp add: startswith_prefix)
qed

lemma find_from_skip_seg:
  assumes "\<not> py_in sub pre" and "length sub \<le> length seg"
    and "list_all (\<lambda>k. \<not> startswith seg (drop k sub)) [1..<length sub]"
  shows "find_from sub (pre @ seg @ post) n = find_from sub (seg @ post) (n + length pre)"
proof (rule find_from_skip[OF assms(1)], intro allI impI)
  fix k assume k: "0 < k \<and> k < length sub"
  then have "\<not> prefix (drop k sub) seg"
    using assms(3) by (simp add: list_all_iff startswith_prefix)
  moreover have "length (drop k sub) \<le> length seg"
    using assms(2) by simp
  ultimately show "\<not> prefix (drop k sub) (seg @ post)"
    by (metis prefix_length_prefix prefixI)
qed


lemma get_degree_first_at:
  assumes "first_at (strip_all_ws raw) op i"
    and "(op = opening_text_en \<and> cl = closing_text_en) \<or>
         (\<not> py_in opening_text_en (strip_all_ws raw) \<and> op = opening_text_de \<and> cl = closing_text_de)"
  shows "get_degree raw =
     Some (py_slice (strip_all_ws raw) (int (i + length op)) (py_find (strip_all_ws raw) cl))"
  using assms py_find_first_at[OF assms(1)] first_at_py_in[OF assms(1)]
  by (auto simp: get_degree_def Let_def)

lemma strip_all_ws_insert_at:
  assumes "list_all is_space ws"
  shows "strip_all_ws (insert_at i ws s) = strip_all_ws s"
proof -
  let ?keep = "filter (\<lambda>c. \<not> is_space c)"
  from assms have "?keep ws = []"
    by (simp add: list_all_iff filter_empty_conv)
  then have "?keep (take i s @ ws @ drop i s) = ?keep (take i s) @ ?keep (drop i s)"
    by simp
  also have "\<dots> = ?keep (take i s @ drop i s)"
    by (simp only: filter_append)
  also have "\<dots> = ?keep s"
    by (simp only: append_take_drop_id)
  finally show ?thesis
    by (simp only: strip_all_ws_filter insert_at_def)
qed

lemma strip_all_ws_insertSpaces:
  "list_all (\<lambda>(i, ws). list_all is_space ws) ins \<Longrightarrow>
   strip_all_ws (insertSpaces ins s) = strip_all_ws s"
  by (induction ins s rule: insertSpaces.induct) (simp_all add: strip_all_ws_insert_at)

lemma get_degree_cong: "strip_all_ws a = strip_all_ws b \<Longrightarrow> get_degree a = get_degree b"
  by (simp add: get_degree_def)

lemma de_open_no_straddle:
  "list_all (\<lambda>k. \<not> startswith de_example (drop k opening_text_de)) [1..<length opening_text_de]"
  by code_simp

lemma de_close_no_straddle:
  "list_all (\<lambda>k. \<not> startswith de_example (drop k closing_text_de)) [1..<length closing_text_de]"
  by code_simp

lemma find_open_example:
  "find_from opening_text_de (de_example @ post) n = int n"
  by (simp add: de_example_def opening_text_de_def)

lemma find_close_example:
  "find_from closing_text_de (de_example @ post) n = int (n + 21)"
  by (simp add: de_example_def closing_text_de_def)

lemma german_example:
  assumes t: "strip_all_ws raw = pre @ de_example @ post"
    and en: "\<not> py_in opening_text_en (strip_all_ws raw)"
    and op: "\<not> py_in opening_text_de pre"
    and cl: "\<not> py_in closing_text_de pre"
  shows "get_degree raw = Some ''Informatik''"
proof -
  have f1: "py_find (strip_all_ws raw) opening_text_de = int (length pre)"
    unfolding py_find_def t
    using find_from_skip_seg[OF op _ de_open_no_straddle, of post 0]
    by (simp add: find_open_example) (simp add: opening_text_de_def de_example_def)
  have f2: "py_find (strip_all_ws raw) closing_text_de = int (length pre + 21)"
    unfolding py_find_def t
    using find_from_skip_seg[OF cl _ de_close_no_straddle, of post 0]
    by (simp add: find_close_example) (simp add: closing_text_de_def de_example_def)
  have i: "py_in opening_text_de (strip_all_ws raw)"
  proof -
    have "pre @ de_example @ post = pre @ opening_text_de @ (''Informatikeingereichtvon'' @ post)"
      by (simp add: de_example_def opening_text_de_def)
    then show ?thesis
      unfolding t py_in_sublist by (simp only: sublist_appendI)
  qed
  have "py_slice (pre @ de_example @ post) (int (length pre + 11)) (int (length pre + 21))
        = ''Informatik''"
    unfolding py_slice_nat by (simp add: de_example_def)
  moreover have "length opening_text_de = 11"
    by (simp add: opening_text_de_def)
  ultimately show ?thesis
    using f1 f2 i en by (simp add: get_degree_def t)
qed

section \<open>The degree-name extractor: the extraction window\<close>

text \<open>
  Claim C1. Let \<open>text\<close> be the raw text without whitespace, and let the anchor pair be
  the English one when \<open>text\<close> contains the English opening anchor, else the German
  one. When \<open>text\<close> contains the opening and the closing anchor of the pair,
  \<open>get_degree\<close> returns the part of \<open>text\<close> from the end of the first occurrence of
  the opening anchor (index \<open>i + length op\<close>) up to, and without, the index \<open>j\<close> of the
  first occurrence of the closing anchor in the whole of \<open>text\<close> (the empty string when
  \<open>j\<close> is not beyond \<open>i + length op\<close>, as a Python slice is). In particular, when
  \<open>text\<close> contains \<open>desStudiumsInformatikeingereichtvon\<close>, the English opening anchor
  does not occur in \<open>text\<close> and neither German anchor occurs before that block, the
  result is \<open>Informatik\<close>.
\<close>

theorem get_degree_window:
  "(py_in op (strip_all_ws raw) \<and> py_in cl (strip_all_ws raw) \<and>
    ((op = opening_text_en \<and> cl = closing_text_en) \<or>
     (\<not> py_in opening_text_en (strip_all_ws raw) \<and>
      op = opening_text_de \<and> cl = closing_text_de)) \<longrightarrow>
    (\<exists>i j. first_at (strip_all_ws raw) op i \<and> first_at (strip_all_ws raw) cl j \<and>
       get_degree raw =
         Some (take (j - (i + length op)) (drop (i + length op) (strip_all_ws raw)))))
   \<and>
   (strip_all_ws raw = pre @ de_example @ post \<and>
    \<not> py_in opening_text_en (strip_all_ws raw) \<and>
    \<not> py_in opening_text_de pre \<and> \<not> py_in closing_text_de pre \<longrightarrow>
    get_degree raw = Some ''Informatik'')"
proof (intro conjI impI)
  assume a: "py_in op (strip_all_ws raw) \<and> py_in cl (strip_all_ws raw) \<and>
    ((op = opening_text_en \<and> cl = closing_text_en) \<or>
     (\<not> py_in opening_text_en (strip_all_ws raw) \<and>
      op = opening_text_de \<and> cl = closing_text_de))"
  then obtain i j where i: "first_at (strip_all_ws raw) op i"
    and j: "first_at (strip_all_ws raw) cl j"
    using py_in_first_at by blast
  from a have pair: "(op = opening_text_en \<and> cl = closing_text_en) \<or>
     (\<not> py_in opening_text_en (strip_all_ws raw) \<and>
      op = opening_text_de \<and> cl = closing_text_de)" by blast
  have "get_degree raw =
      Some (take (j - (i + length op)) (drop (i + length op) (strip_all_ws raw)))"
    using get_degree_first_at[OF i pair] py_find_first_at[OF j]
      py_slice_nat[of "strip_all_ws raw" "i + length op" j]
    by simp
  with i j show "\<exists>i j. first_at (strip_all_ws raw) op i \<and> first_at (strip_all_ws raw) cl j \<and>
       get_degree raw =
         Some (take (j - (i + length op)) (drop (i + length op) (strip_all_ws raw)))"
    by blast
next
  assume "strip_all_ws raw = pre @ de_example @ post \<and>
    \<not> py_in opening_text_en (strip_all_ws raw) \<and>
    \<not> py_in opening_text_de pre \<and> \<not> py_in closing_text_de pre"
  then show "get_degree raw = Some ''Informatik''"
    using german_example by blast
qed

theorem get_degree_window_witness:
  "py_in opening_text_en (strip_all_ws raw_en) \<and> py_in closing_text_en (strip_all_ws raw_en) \<and>
   first_at (strip_all_ws raw_en) opening_text_en 6 \<and>
   first_at (strip_all_ws raw_en) closing_text_en 29 \<and>
   get_degree raw_en = Some ''MasterofScience'' \<and>
   strip_all_ws raw_de = ''DiplomarbeitzurErlangung'' @ de_example @ ''Erika'' \<and>
   \<not> py_in opening_text_en (strip_all_ws raw_de) \<and>
   \<not> py_in opening_text_de ''DiplomarbeitzurErlangung'' \<and>
   \<not> py_in closing_text_de ''DiplomarbeitzurErlangung'' \<and>
   get_degree raw_de = Some ''Informatik''"
proof -
  have h1: "py_in opening_text_en (strip_all_ws raw_en)" by code_simp
  have h2: "py_in closing_text_en (strip_all_ws raw_en)" by code_simp
  have f1: "first_at (strip_all_ws raw_en) opening_text_en 6" by code_simp
  have f2: "first_at (strip_all_ws raw_en) closing_text_en 29" by code_simp
  have g1: "strip_all_ws raw_de = ''DiplomarbeitzurErlangung'' @ de_example @ ''Erika''"
    by code_simp
  have g2: "\<not> py_in opening_text_en (strip_all_ws raw_de)" by code_simp
  have g3: "\<not> py_in opening_text_de ''DiplomarbeitzurErlangung''" by code_simp
  have g4: "\<not> py_in closing_text_de ''DiplomarbeitzurErlangung''" by code_simp
  have u: "\<And>i. first_at (strip_all_ws raw_en) opening_text_en i \<Longrightarrow> i = 6"
    using f1 by (metis py_find_first_at of_nat_eq_iff)
  have v: "\<And>j. first_at (strip_all_ws raw_en) closing_text_en j \<Longrightarrow> j = 29"
    using f2 by (metis py_find_first_at of_nat_eq_iff)
  have t: "take (29 - (6 + length opening_text_en)) (drop (6 + length opening_text_en) (strip_all_ws raw_en))
     = ''MasterofScience''" by code_simp
  from get_degree_window[of opening_text_en raw_en closing_text_en "[]" "[]"] h1 h2
  obtain i j where i: "first_at (strip_all_ws raw_en) opening_text_en i"
    and j: "first_at (strip_all_ws raw_en) closing_text_en j"
    and d: "get_degree raw_en = Some (take (j - (i + length opening_text_en))
              (drop (i + length opening_text_en) (strip_all_ws raw_en)))"
    by blast
  from i j have "i = 6" "j = 29" using u v by blast+
  with d t have "get_degree raw_en = Some ''MasterofScience''" by simp
  moreover
  from get_degree_window[of opening_text_de raw_de closing_text_de "''DiplomarbeitzurErlangung''" "''Erika''"]
  have "get_degree raw_de = Some ''Informatik''"
    using g1 g2 g3 g4 by blast
  ultimately show ?thesis using h1 h2 f1 f2 g1 g2 g3 g4 by blast
qed


section \<open>The degree-name extractor: a missing closing anchor\<close>

text \<open>
  Claim C10. When the text without whitespace contains the opening anchor of the
  selected pair (English first, else German) and does not contain the closing anchor
  of that pair, the failed search gives \<open>-1\<close> and \<open>get_degree\<close> does not return
  \<open>None\<close>: it returns the text from the end of the first occurrence of the opening
  anchor up to, and without, the last character of the text.
\<close>

theorem get_degree_no_closing:
  assumes "py_in op (strip_all_ws raw)"
    and "\<not> py_in cl (strip_all_ws raw)"
    and "(op = opening_text_en \<and> cl = closing_text_en) \<or>
         (\<not> py_in opening_text_en (strip_all_ws raw) \<and>
          op = opening_text_de \<and> cl = closing_text_de)"
  shows "\<exists>i. first_at (strip_all_ws raw) op i \<and>
           get_degree raw = Some (butlast (drop (i + length op) (strip_all_ws raw)))"
proof -
  from assms(1) obtain i where i: "first_at (strip_all_ws raw) op i"
    using py_in_first_at by blast
  have "get_degree raw = Some (butlast (drop (i + length op) (strip_all_ws raw)))"
    using get_degree_first_at[OF i assms(3)] py_find_absent[OF assms(2)]
      py_slice_minus1[OF first_at_bound[OF i]]
    by simp
  with i show ?thesis by blast
qed

theorem get_degree_no_closing_witness:
  "py_in opening_text_en (strip_all_ws raw_open) \<and>
   \<not> py_in closing_text_en (strip_all_ws raw_open) \<and>
   first_at (strip_all_ws raw_open) opening_text_en 3 \<and>
   get_degree raw_open = Some ''Docto'' \<and>
   py_in opening_text_de (strip_all_ws raw_de_open) \<and>
   \<not> py_in closing_text_de (strip_all_ws raw_de_open) \<and>
   \<not> py_in opening_text_en (strip_all_ws raw_de_open) \<and>
   first_at (strip_all_ws raw_de_open) opening_text_de 12 \<and>
   get_degree raw_de_open = Some ''Informati''"
proof -
  have h1: "py_in opening_text_en (strip_all_ws raw_open)" by code_simp
  have h2: "\<not> py_in closing_text_en (strip_all_ws raw_open)" by code_simp
  have f: "first_at (strip_all_ws raw_open) opening_text_en 3" by code_simp
  have t: "butlast (drop (3 + length opening_text_en) (strip_all_ws raw_open)) = ''Docto''"
    by code_simp
  from get_degree_no_closing[of opening_text_en raw_open closing_text_en] h1 h2
  obtain i where i: "first_at (strip_all_ws raw_open) opening_text_en i"
    and d: "get_degree raw_open =
      Some (butlast (drop (i + length opening_text_en) (strip_all_ws raw_open)))"
    by blast
  from i f have "i = 3" by (metis py_find_first_at of_nat_eq_iff)
  with d t have en: "get_degree raw_open = Some ''Docto''" by simp
  have g1: "py_in opening_text_de (strip_all_ws raw_de_open)" by code_simp
  have g2: "\<not> py_in closing_text_de (strip_all_ws raw_de_open)" by code_simp
  have g3: "\<not> py_in opening_text_en (strip_all_ws raw_de_open)" by code_simp
  have g: "first_at (strip_all_ws raw_de_open) opening_text_de 12" by code_simp
  have u: "butlast (drop (12 + length opening_text_de) (strip_all_ws raw_de_open)) = ''Informati''"
    by code_simp
  from get_degree_no_closing[of opening_text_de raw_de_open closing_text_de] g1 g2 g3
  obtain k where k: "first_at (strip_all_ws raw_de_open) opening_text_de k"
    and e: "get_degree raw_de_open =
      Some (butlast (drop (k + length opening_text_de) (strip_all_ws raw_de_open)))"
    by blast
  from k g have "k = 12" by (metis py_find_first_at of_nat_eq_iff)
  with e u have de: "get_degree raw_de_open = Some ''Informati''" by simp
  from h1 h2 f en g1 g2 g3 g de show ?thesis by blast
qed

section \<open>The degree-name extractor: inserted whitespace\<close>

text \<open>
  Claim C5. Inserting whitespace characters into a text, at any positions, does not
  change the result of \<open>get_degree\<close>. The positions are not restricted: all whitespace
  is removed before the anchors are searched, so the equation also holds for
  whitespace inserted inside an anchor, and so in particular for every insertion
  strictly inside word tokens.
\<close>

theorem get_degree_insertSpaces:
  "list_all (\<lambda>(i, ws). list_all is_space ws) ins \<Longrightarrow>
   get_degree (insertSpaces ins raw) = get_degree raw"
  by (rule get_degree_cong) (rule strip_all_ws_insertSpaces)

theorem get_degree_insertSpaces_witness:
  "list_all (\<lambda>(i, ws). list_all is_space ws) spaces_en \<and>
   insertSpaces spaces_en raw_en =
     ''for the deg ree of M'' @ [CHR 0x0A, CHR '' ''] @ ''aster of Science by the Faculty'' \<and>
   get_degree (insertSpaces spaces_en raw_en) = get_degree raw_en"
proof -
  have h: "list_all (\<lambda>(i, ws). list_all is_space ws) spaces_en" by code_simp
  have e: "insertSpaces spaces_en raw_en =
     ''for the deg ree of M'' @ [CHR 0x0A, CHR '' ''] @ ''aster of Science by the Faculty''"
    by code_simp
  from get_degree_insertSpaces[OF h, of raw_en] h e show ?thesis by blast
qed

section \<open>Facts about the parsed documents\<close>

lemma bs_find_None_iff: "bs_find p t = None \<longleftrightarrow> \<not> has_tag p t"
  by (auto simp: bs_find_def has_tag_def find_None_iff list_ex_iff)

lemma bs_find_Some_tag: "bs_find p t = Some n \<Longrightarrow> is_tag n \<and> p n \<and> n \<in> set (descendants t)"
  by (auto simp: bs_find_def find_Some_iff)

section \<open>Facts about the field extractor\<close>

lemma resource_row_skip: "row_pair row = None \<Longrightarrow> resource_row row attributes = attributes"
  by (auto simp: row_pair_def resource_row_def split: option.splits)

lemma resource_row_pair:
  "row_pair row = Some (k, v) \<Longrightarrow>
   map_of (resource_row row attributes) =
     (map_of attributes)(k \<mapsto> (case map_of attributes k of None \<Rightarrow> v | Some old \<Rightarrow> old @ '', '' @ v))"
  by (auto simp: row_pair_def resource_row_def update_conv' Let_def split: option.splits)

lemma py_join_append_first:
  "py_join sep ((a @ sep @ v) # vs) = py_join sep (a # v # vs)"
  by (cases vs) simp_all

lemma values_for_Nil: "values_for l [] = []"
  by (simp add: values_for_def)

lemma values_for_Cons:
  "values_for l (row # rows) =
     (case row_pair row of
        None \<Rightarrow> values_for l rows
      | Some (k, v) \<Rightarrow> if k = l then v # values_for l rows else values_for l rows)"
  by (simp add: values_for_def split: option.splits)

lemma resource_rows_lookup:
  "map_of (resource_rows rows attributes) l =
     (case map_of attributes l of
        None \<Rightarrow> (if values_for l rows = [] then None else Some (py_join '', '' (values_for l rows)))
      | Some old \<Rightarrow> Some (py_join '', '' (old # values_for l rows)))"
proof (induction rows arbitrary: attributes)
  case Nil
  then show ?case by (simp add: values_for_Nil split: option.splits)
next
  case (Cons row rows)
  show ?case
  proof (cases "row_pair row")
    case None
    then have vf: "values_for l (row # rows) = values_for l rows"
      by (simp add: values_for_Cons)
    show ?thesis
      unfolding vf resource_rows.simps resource_row_skip[OF None] by (rule Cons.IH)
  next
    case (Some kv)
    obtain k v where kv: "kv = (k, v)" by (cases kv)
    note m = resource_row_pair[OF Some[unfolded kv], of attributes]
    show ?thesis
    proof (cases "k = l")
      case True
      with Some kv have vf: "values_for l (row # rows) = v # values_for l rows"
        by (simp add: values_for_Cons)
      show ?thesis
        unfolding vf resource_rows.simps Cons.IH m using True
        by (simp add: py_join_append_first[of "'', ''", simplified] split: option.splits)
    next
      case False
      with Some kv have vf: "values_for l (row # rows) = values_for l rows"
        by (simp add: values_for_Cons)
      show ?thesis
        unfolding vf resource_rows.simps Cons.IH m using False
        by simp
    qed
  qed
qed


lemma py_join_Cons: "py_join sep (a # vs) = a @ (if vs = [] then [] else sep @ py_join sep vs)"
  by (cases vs) simp_all

section \<open>Repeated labels\<close>

text \<open>
  Claim C4. When the rows that have a label element and a value element and whose
  trimmed label is \<open>l\<close> are N rows, N at least one, the record returned by
  \<open>get_resource_attributes\<close> binds \<open>l\<close> to their N trimmed values, joined by \<open>", "\<close> in
  document order. A value that a label already has is never replaced: the loop only
  appends to it.
\<close>

theorem get_resource_attributes_repeated:
  "(values_for l rows \<noteq> [] \<longrightarrow>
      map_of (get_resource_attributes rows) l = Some (py_join '', '' (values_for l rows))) \<and>
   (map_of attributes l = Some old \<longrightarrow>
      (\<exists>suffix. map_of (resource_rows rows attributes) l = Some (old @ suffix)))"
proof (intro conjI impI)
  assume "values_for l rows \<noteq> []"
  then show "map_of (get_resource_attributes rows) l = Some (py_join '', '' (values_for l rows))"
    by (simp add: get_resource_attributes_def resource_rows_lookup)
next
  assume "map_of attributes l = Some old"
  then have "map_of (resource_rows rows attributes) l =
      Some (py_join '', '' (old # values_for l rows))"
    by (simp add: resource_rows_lookup)
  then show "\<exists>suffix. map_of (resource_rows rows attributes) l = Some (old @ suffix)"
    unfolding py_join_Cons by blast
qed

theorem get_resource_attributes_repeated_witness:
  "values_for ''dc.subject'' rows_subject = [''Logic'', ''Automata''] \<and>
   map_of (get_resource_attributes rows_subject) ''dc.subject'' = Some ''Logic, Automata'' \<and>
   map_of [(''dc.subject'', ''Logic'')] ''dc.subject'' = Some ''Logic'' \<and>
   (\<exists>suffix. map_of (resource_rows rows_subject [(''dc.subject'', ''Logic'')]) ''dc.subject''
       = Some (''Logic'' @ suffix))"
proof -
  have v: "values_for ''dc.subject'' rows_subject = [''Logic'', ''Automata'']"
    by code_simp
  have m: "map_of [(''dc.subject'', ''Logic'')] ''dc.subject'' = Some ''Logic''"
    by simp
  note t = get_resource_attributes_repeated[of "''dc.subject''" rows_subject
      "[(''dc.subject'', ''Logic'')]" "''Logic''"]
  from t v have "map_of (get_resource_attributes rows_subject) ''dc.subject''
      = Some (py_join '', '' [''Logic'', ''Automata''])"
    by simp
  moreover from t m have "\<exists>suffix. map_of (resource_rows rows_subject
      [(''dc.subject'', ''Logic'')]) ''dc.subject'' = Some (''Logic'' @ suffix)"
    by blast
  ultimately show ?thesis using v m by simp
qed

section \<open>Rows without a label or a value\<close>

text \<open>A row without a label element or without a value element leaves the record of
  \<open>get_resource_attributes\<close> as it is.\<close>

lemma resource_row_missing:
  "bs_find (by_class ''div'' ''col-md-3 col-sm-4 metadataFieldLabel'') row = None \<or>
   bs_find (by_class ''div'' ''col-md-8 col-sm-8 metadataFieldValue'') row = None \<Longrightarrow>
   resource_row row attributes = attributes"
  by (auto simp: resource_row_def split: option.splits)

text \<open>The row loop of \<open>get_thesis_info\<close> skips a row without a label element, and raises
  on a row that has a label element and no value element.\<close>

lemma thesis_row_missing_label:
  "bs_find (by_class ''div'' ''col-md-3 col-sm-4 metadataFieldLabel'') row = None \<Longrightarrow>
   thesis_row row info_dict = Inr info_dict"
  by (simp add: thesis_row_def)

lemma thesis_row_missing_value:
  "bs_find (by_class ''div'' ''col-md-3 col-sm-4 metadataFieldLabel'') row = Some l \<Longrightarrow>
   bs_find (by_class ''div'' ''col-md-8 col-sm-8 metadataFieldValue'') row = None \<Longrightarrow>
   thesis_row row info_dict = Inl AttributeError"
  by (simp add: thesis_row_def)

text \<open>
  Claim C3, at a list of one row that has a label element and no value element. The
  row contributes nothing to \<open>get_resource_attributes\<close>, which returns the empty
  record; the row loop of \<open>get_thesis_info\<close> does not skip it: it raises
  \<open>AttributeError\<close>.
\<close>

theorem thesis_rows_missing_value_raises:
  "rows_no_value = [metadata_row [label_div ''dc.subject'']] \<and>
   has_tag (by_class ''div'' ''col-md-3 col-sm-4 metadataFieldLabel'')
     (metadata_row [label_div ''dc.subject'']) \<and>
   \<not> has_tag (by_class ''div'' ''col-md-8 col-sm-8 metadataFieldValue'')
     (metadata_row [label_div ''dc.subject'']) \<and>
   get_resource_attributes rows_no_value = [] \<and>
   thesis_rows rows_no_value [] = Inl AttributeError"
  by code_simp

section \<open>Metrics of a page without the side panel\<close>

text \<open>On every page without the panel, \<open>get_metrics\<close> raises.\<close>

lemma get_metrics_no_panel:
  "\<not> has_tag (by_class ''div'' ''panel-list-right'') soup \<Longrightarrow>
   get_metrics soup = Inl AttributeError"
  by (simp add: get_metrics_def bs_find_None_iff[symmetric])

text \<open>
  Claim C2, at a page without a \<open>div\<close> of class \<open>panel-list-right\<close>: \<open>get_metrics\<close> does
  not return the pair of sentinels, it raises \<open>AttributeError\<close>.
\<close>

theorem get_metrics_no_panel_raises:
  "\<not> has_tag (by_class ''div'' ''panel-list-right'') page_no_panel \<and>
   get_metrics page_no_panel = Inl AttributeError"
  by code_simp

section \<open>The link to the PDF\<close>

text \<open>
  Claim C8. Without a container of class \<open>item-bitstream-grid-bitstream-type\<close> in the
  region, \<open>get_pdf_link\<close> returns the sentinel \<open>No bitstream grid found\<close>. With the
  container there and no \<open>a\<close> element in it, the lookup of \<open>href\<close> fails: \<open>get_pdf_link\<close>
  raises (a \<open>TypeError\<close>, the subscript being applied to \<open>None\<close>), and nothing in it
  catches the error, so that it reaches the caller.
\<close>

theorem get_pdf_link_cases:
  "(\<not> has_tag (by_class ''div'' ''item-bitstream-grid-bitstream-type'') wrapper_display \<longrightarrow>
      get_pdf_link wrapper_display = Inr ''No bitstream grid found'') \<and>
   (bs_find (by_class ''div'' ''item-bitstream-grid-bitstream-type'') wrapper_display = Some link_div \<and>
    \<not> has_tag (by_name ''a'') link_div \<longrightarrow>
      get_pdf_link wrapper_display = Inl TypeError)"
proof (intro conjI impI)
  assume "\<not> has_tag (by_class ''div'' ''item-bitstream-grid-bitstream-type'') wrapper_display"
  then have "bs_find (by_class ''div'' ''item-bitstream-grid-bitstream-type'') wrapper_display = None"
    by (simp add: bs_find_None_iff)
  then show "get_pdf_link wrapper_display = Inr ''No bitstream grid found''"
    by (simp add: get_pdf_link_def)
next
  assume a: "bs_find (by_class ''div'' ''item-bitstream-grid-bitstream-type'') wrapper_display
      = Some link_div \<and> \<not> has_tag (by_name ''a'') link_div"
  then have "bs_find (by_name ''a'') link_div = None"
    by (simp add: bs_find_None_iff)
  with a show "get_pdf_link wrapper_display = Inl TypeError"
    by (simp add: get_pdf_link_def)
qed

theorem get_pdf_link_cases_witness:
  "\<not> has_tag (by_class ''div'' ''item-bitstream-grid-bitstream-type'') wrapper_no_grid \<and>
   get_pdf_link wrapper_no_grid = Inr ''No bitstream grid found'' \<and>
   bs_find (by_class ''div'' ''item-bitstream-grid-bitstream-type'') wrapper_no_link
     = Some (Tag ''div'' [(''class'', ''item-bitstream-grid-bitstream-type'')] [NavigableString ''PDF'']) \<and>
   \<not> has_tag (by_name ''a'')
     (Tag ''div'' [(''class'', ''item-bitstream-grid-bitstream-type'')] [NavigableString ''PDF'']) \<and>
   get_pdf_link wrapper_no_link = Inl TypeError"
proof -
  have a: "\<not> has_tag (by_class ''div'' ''item-bitstream-grid-bitstream-type'') wrapper_no_grid"
    by code_simp
  have b: "bs_find (by_class ''div'' ''item-bitstream-grid-bitstream-type'') wrapper_no_link
     = Some (Tag ''div'' [(''class'', ''item-bitstream-grid-bitstream-type'')] [NavigableString ''PDF''])"
    by code_simp
  have c: "\<not> has_tag (by_name ''a'')
     (Tag ''div'' [(''class'', ''item-bitstream-grid-bitstream-type'')] [NavigableString ''PDF''])"
    by code_simp
  from get_pdf_link_cases[of wrapper_no_grid] a
  have "get_pdf_link wrapper_no_grid = Inr ''No bitstream grid found''" by blast
  moreover from get_pdf_link_cases[of wrapper_no_link] b c
  have "get_pdf_link wrapper_no_link = Inl TypeError" by blast
  ultimately show ?thesis using a b c by blast
qed

section \<open>Identifiers out of range\<close>

text \<open>
  Claim C6. For an identifier that is not an integer, or is a negative integer, or is
  an integer of at least 300000, \<open>scrape_publication_page\<close> raises a \<open>ValueError\<close> (with
  the message of the check that failed), and the state is the one it was called in:
  no delay, no request, no output.
\<close>

theorem scrape_publication_page_rejects:
  assumes "id' = PyOther \<or> (\<exists>i. id' = PyInt i \<and> (i < 0 \<or> 300000 \<le> i))"
  shows "scrape_publication_page fetch id' path doi_prefix st =
     (Inl (ValueError
        (if id' = PyOther then ''id must be an integer''
         else if int_value id' < 0 then ''id must be a positive integer''
         else ''id must be less than 300_000'')),
      st)"
  using assms by (auto simp: scrape_publication_page_def)

theorem scrape_publication_page_rejects_witness:
  "(PyInt 300000 = PyOther \<or> (\<exists>i. PyInt 300000 = PyInt i \<and> (i < 0 \<or> 300000 \<le> i))) \<and>
   scrape_publication_page (fetch_page page_invalid) (PyInt 300000)
      ''/handle'' ''/20.500.12708/'' ((), []) =
     (Inl (ValueError ''id must be less than 300_000''), ((), [])) \<and>
   (PyInt (- 1) = PyOther \<or> (\<exists>i. PyInt (- 1) = PyInt i \<and> (i < 0 \<or> 300000 \<le> i))) \<and>
   scrape_publication_page (fetch_page page_invalid) (PyInt (- 1))
      ''/handle'' ''/20.500.12708/'' ((), []) =
     (Inl (ValueError ''id must be a positive integer''), ((), [])) \<and>
   scrape_publication_page (fetch_page page_invalid) PyOther
      ''/handle'' ''/20.500.12708/'' ((), []) =
     (Inl (ValueError ''id must be an integer''), ((), []))"
proof -
  have h: "PyInt 300000 = PyOther \<or> (\<exists>i. PyInt 300000 = PyInt i \<and> (i < 0 \<or> 300000 \<le> i))"
    by simp
  have n: "PyInt (- 1) = PyOther \<or> (\<exists>i. PyInt (- 1) = PyInt i \<and> (i < 0 \<or> 300000 \<le> i))"
    by simp
  have o: "PyOther = PyOther \<or> (\<exists>i. PyOther = PyInt i \<and> (i < 0 \<or> 300000 \<le> i))"
    by simp
  from scrape_publication_page_rejects[OF h, of "fetch_page page_invalid" "''/handle''"
      "''/20.500.12708/''" "((), [])"]
    scrape_publication_page_rejects[OF n, of "fetch_page page_invalid" "''/handle''"
      "''/20.500.12708/''" "((), [])"]
    scrape_publication_page_rejects[OF o, of "fetch_page page_invalid" "''/handle''"
      "''/20.500.12708/''" "((), [])"]
    h n
  show ?thesis by simp
qed

section \<open>The heading of an unknown identifier\<close>

text \<open>The test for the heading never holds, so the sentinel \<open>Invalid Identifier\<close> is
  never returned.\<close>

lemma bs_find_invalid_identifier_heading: "bs_find invalid_identifier_heading soup = None"
  by (simp add: bs_find_def invalid_identifier_heading_def method_eq_str_def find_None_iff)

lemma scrape_publication_page_never_invalid_identifier:
  "fst (scrape_publication_page fetch id' path doi_prefix st) \<noteq> Inr (Message ''Invalid Identifier'')"
  by (auto simp: scrape_publication_page_def bs_find_invalid_identifier_heading Let_def
      split: prod.splits option.splits sum.splits)


text \<open>
  Claim C7, at identifier 1 and a response with status 200 whose body has an \<open>h1\<close>
  heading with the text \<open>Invalid Identifier\<close>: \<open>scrape_publication_page\<close> does not return
  \<open>Invalid Identifier\<close>; it goes on and returns \<open>No wrapperDisplayItem found\<close>.
\<close>

theorem scrape_publication_page_invalid_heading:
  "status_code (fst (fetch_page page_invalid () [])) = 200 \<and>
   bs_find (\<lambda>t. tag_name t = ''h1'' \<and> py_strip (get_text t) = ''Invalid Identifier'')
     page_invalid \<noteq> None \<and>
   scrape_publication_page (fetch_page page_invalid) (PyInt 1) ''/handle'' ''/20.500.12708/'' ((), [])
     = (Inr (Message ''No wrapperDisplayItem found''),
        ((), [Sleep 5, Get ''https://repositum.tuwien.at/handle/20.500.12708/1?mode=full'']))"
  by code_simp

section \<open>Two pages of search results\<close>

text \<open>
  When both addresses are ones that \<open>requests.get\<close> sends, the first request is
  answered by a page with a \<open>Next\<close> link and the request for that link by a page with
  none, \<open>get_all_theses_links\<close> ends and returns the links of page 1 followed by the
  links of page 2, with one delay between the two requests.
\<close>

lemma links_two_pages_absolute:
  assumes "address_error start_page = None"
    and "fetch w start_page = (page1, w1)"
    and "next_results_page (content page1) = Inr (Some next_page)"
    and "next_page \<noteq> []"
    and "address_error next_page = None"
    and "fetch w1 next_page = (page2, w2)"
    and "next_results_page (content page2) = Inr None"
  shows "get_all_theses_links fetch start_page (w, log) =
     Some (Inr (get_theses_links (content page1) @ get_theses_links (content page2)),
           (w2, log @ [Get start_page,
                       Print (progress_line (length (get_theses_links (content page1)))),
                       Sleep CRAWL_DELAY,
                       Get next_page,
                       Print (progress_line (length (get_theses_links (content page1) @
                                                     get_theses_links (content page2))))]))"
proof -
  let ?l1 = "get_theses_links (content page1)"
  let ?l2 = "get_theses_links (content page2)"
  let ?st2 = "(w2, log @ [Get start_page, Print (progress_line (length ?l1)),
                 Sleep CRAWL_DELAY, Get next_page])"
  have second: "links_loop fetch ?l1 page2 ?st2 =
      Some (Inr (?l1 @ ?l2), (w2, log @ [Get start_page, Print (progress_line (length ?l1)),
                 Sleep CRAWL_DELAY, Get next_page, Print (progress_line (length (?l1 @ ?l2)))]))"
    by (subst links_loop.simps) (simp add: assms(7) py_print_def Let_def)
  have first: "links_loop fetch [] page1 (w1, log @ [Get start_page]) =
      links_loop fetch ?l1 page2 ?st2"
    by (subst links_loop.simps)
      (simp add: assms(3,4,5,6) py_print_def time_sleep_def requests_get_def Let_def)
  show ?thesis
    unfolding get_all_theses_links_def requests_get_def
    by (simp add: assms(1,2) first second)
qed

text \<open>
  When the address of the \<open>Next\<close> link is one that \<open>requests.get\<close> does not send, the run
  ends after page 1, and after the delay, with the error of that address.
\<close>

lemma links_next_refused:
  assumes "address_error start_page = None"
    and "fetch w start_page = (page1, w1)"
    and "next_results_page (content page1) = Inr (Some next_page)"
    and "next_page \<noteq> []"
    and "address_error next_page = Some e"
  shows "get_all_theses_links fetch start_page (w, log) =
     Some (Inl e,
           (w1, log @ [Get start_page,
                       Print (progress_line (length (get_theses_links (content page1)))),
                       Sleep CRAWL_DELAY]))"
proof -
  have "links_loop fetch [] page1 (w1, log @ [Get start_page]) =
      Some (Inl e, (w1, log @ [Get start_page,
                       Print (progress_line (length (get_theses_links (content page1)))),
                       Sleep CRAWL_DELAY]))"
    by (subst links_loop.simps)
      (simp add: assms(3,4,5) py_print_def time_sleep_def requests_get_def Let_def)
  then show ?thesis
    unfolding get_all_theses_links_def requests_get_def
    by (simp add: assms(1,2))
qed

text \<open>
  Claim C9, at a result set of two pages whose \<open>Next\<close> link has the address
  \<open>/simple-search?start=50\<close>, a path on the site as the links to the theses are. Page 1
  has a \<open>Next\<close> link in its pagination list and page 2 has none; the first request
  is for an address with \<open>https://\<close>. \<open>get_all_theses_links\<close> does not return the links
  of the two pages: after page 1 and one delay it passes the path to \<open>requests.get\<close>
  as it stands, which raises \<open>MissingSchema\<close>, and page 2 is never requested.
\<close>

theorem get_all_theses_links_relative_next:
  "fetch_two 0 ''https://repositum.tuwien.at/simple-search'' = (resp1, 1) \<and>
   fetch_two 1 ''/simple-search?start=50'' = (resp2, 2) \<and>
   has_tag (by_string ''a'' ''Next'') (content resp1) \<and>
   next_results_page (content resp1) = Inr (Some ''/simple-search?start=50'') \<and>
   \<not> has_tag (by_string ''a'' ''Next'') (content resp2) \<and>
   next_results_page (content resp2) = Inr None \<and>
   get_theses_links (content resp1) = [''/handle/20.500.12708/1'', ''/handle/20.500.12708/2''] \<and>
   get_theses_links (content resp2) = [''/handle/20.500.12708/3''] \<and>
   get_all_theses_links fetch_two ''https://repositum.tuwien.at/simple-search'' (0, []) =
     Some (Inl MissingSchema,
           (1, [Get ''https://repositum.tuwien.at/simple-search'',
                Print (CHR 0x0D # ''2 thesis links found''),
                Sleep 5]))"
proof -
  have a: "fetch_two 0 ''https://repositum.tuwien.at/simple-search'' = (resp1, 1)"
    by (simp add: fetch_two_def resp1_def)
  have d: "fetch_two 1 ''/simple-search?start=50'' = (resp2, 2)"
    by (simp add: fetch_two_def resp2_def)
  have t1: "has_tag (by_string ''a'' ''Next'') (content resp1)"
    by code_simp
  have b: "next_results_page (content resp1) = Inr (Some ''/simple-search?start=50'')"
    by code_simp
  have t2: "\<not> has_tag (by_string ''a'' ''Next'') (content resp2)"
    by code_simp
  have e: "next_results_page (content resp2) = Inr None"
    by code_simp
  have l1: "get_theses_links (content resp1) = [''/handle/20.500.12708/1'', ''/handle/20.500.12708/2'']"
    by code_simp
  have l2: "get_theses_links (content resp2) = [''/handle/20.500.12708/3'']"
    by code_simp
  have s: "address_error ''https://repositum.tuwien.at/simple-search'' = None"
    by code_simp
  have r: "address_error ''/simple-search?start=50'' = Some MissingSchema"
    by code_simp
  have p2: "progress_line (Suc (Suc 0)) = CHR 0x0D # ''2 thesis links found''"
    by code_simp
  have "get_all_theses_links fetch_two ''https://repositum.tuwien.at/simple-search'' (0, []) =
     Some (Inl MissingSchema,
           (1, [Get ''https://repositum.tuwien.at/simple-search'',
                Print (CHR 0x0D # ''2 thesis links found''),
                Sleep 5]))"
  proof -
    have c: "''/simple-search?start=50'' \<noteq> []" by simp
    show ?thesis
      using links_next_refused[of "''https://repositum.tuwien.at/simple-search''" fetch_two 0
          resp1 1 "''/simple-search?start=50''" MissingSchema "[]"] s a b c r
      by (simp add: l1 p2 CRAWL_DELAY_def)
  qed
  with a d t1 b t2 e l1 l2 show ?thesis by blast
qed

end
